theory Spec2Isabelle
  imports Main
begin

section \<open>Quiver-to-Obsidian: hierarchy resolution, renaming and link rewriting\<close>

text \<open>
  A shallow embedding of \<^verbatim>\<open>src/quiver/utils.ts\<close>, \<^verbatim>\<open>src/quiver/quiver_parse.ts\<close>
  (the hierarchy walk) and \<^verbatim>\<open>src/quiver/index.ts\<close> (export planning, resource
  naming, link rewriting).

  Conventions of the embedding:
  \<^item> a JavaScript string is a \<open>string\<close>, one \<open>char\<close> per code unit; the texts covered
    are those whose code units are below 256, so the only line terminators are
    line feed and carriage return and the only white space is the seven characters
    of \<open>isWhiteSpace\<close> below;
  \<^item> a thrown \<^verbatim>\<open>Error\<close> is the left summand of a result \<open>error + 'a\<close>;
  \<^item> a \<^verbatim>\<open>Record<string, T>\<close> and a \<^verbatim>\<open>Map<string, T>\<close> are maps
    \<open>string \<rightharpoonup> T\<close>; identifiers are taken not to be names of properties of
    \<^verbatim>\<open>Object.prototype\<close>;
  \<^item> \<^verbatim>\<open>console.warn\<close> appends to a list of warnings carried in the state.
\<close>

subsection \<open>Errors\<close>

datatype error =
    RenameFailed string      \<comment> \<open>\<^verbatim>\<open>rename resource name failed: ${noteName}\<close>\<close>
  | DuplicateNoteUuid string \<comment> \<open>\<^verbatim>\<open>there has two notes with uuid(${uuid}), ...\<close>\<close>

subsection \<open>Decimal rendering of a suffix\<close>

text \<open>
  The template literal \<^verbatim>\<open>`${noteName} ${index}`\<close> renders the number in decimal.
  The suffix is a natural number here: every caller passes 2 and the function only
  adds 1.
\<close>

definition digitChar :: "nat \<Rightarrow> char" where
  "digitChar d = char_of (48 + d)"

fun numberToString :: "nat \<Rightarrow> string" where
  "numberToString n =
     (if n < 10 then [digitChar n]
      else numberToString (n div 10) @ [digitChar (n mod 10)])"

declare numberToString.simps [simp del]

subsection \<open>The collision resolver (\<^verbatim>\<open>utils.ts\<close>)\<close>

definition MAX_RENAME_COUNT :: nat where
  "MAX_RENAME_COUNT = 100"

text \<open>\<^verbatim>\<open>currentNames.indexOf(newName) > -1\<close> is membership in the list.\<close>

function newDistinctNoteName :: "string \<Rightarrow> string list \<Rightarrow> nat \<Rightarrow> error + string" where
  "newDistinctNoteName noteName currentNames index =
     (if index > MAX_RENAME_COUNT then Inl (RenameFailed noteName)
      else let newName = noteName @ '' '' @ numberToString index
           in if newName \<in> set currentNames
              then newDistinctNoteName noteName currentNames (index + 1)
              else Inr newName)"
  by pat_completeness auto
termination
  by (relation "measure (\<lambda>(noteName, currentNames, index). Suc MAX_RENAME_COUNT - index)")
     (auto simp: MAX_RENAME_COUNT_def)

declare newDistinctNoteName.simps [simp del]

subsection \<open>Strings\<close>






subsection \<open>Node's \<^verbatim>\<open>path\<close> module (POSIX flavour)\<close>





subsection \<open>The data model (\<^verbatim>\<open>type.ts\<close>)\<close>





datatype QvLibraryMeta =
  QvLibraryMeta (meta_uuid: string) (meta_children: "QvLibraryMeta list option")


subsection \<open>The hierarchy walk (\<^verbatim>\<open>quiver_parse.ts\<close>)\<close>


subsection \<open>The method \<^verbatim>\<open>Quiver.walkThroughNotebookHierarchty\<close> (\<^verbatim>\<open>index.ts\<close>)\<close>






subsection \<open>Export planning (\<^verbatim>\<open>Quiver.transformQvLibraryToObsidian\<close>)\<close>



text \<open>
  \<^verbatim>\<open>findInMeta\<close> of \<^verbatim>\<open>notebookHasChildren\<close>: \<open>None\<close> is \<^verbatim>\<open>null\<close> (not found); at the
  node with the uuid the answer is \<^verbatim>\<open>meta.children && meta.children.length > 0\<close>,
  whose value \<^verbatim>\<open>undefined\<close> is not \<^verbatim>\<open>null\<close> and not \<^verbatim>\<open>true\<close>.
\<close>

fun findInMeta :: "string \<Rightarrow> QvLibraryMeta \<Rightarrow> bool option"
  and findInChildren :: "string \<Rightarrow> QvLibraryMeta list \<Rightarrow> bool option"
where
  "findInMeta uuid (QvLibraryMeta u cs) =
     (if u = uuid then
        (case cs of None \<Rightarrow> Some False | Some children \<Rightarrow> Some (children \<noteq> []))
      else (case cs of None \<Rightarrow> None | Some children \<Rightarrow> findInChildren uuid children))"
| "findInChildren uuid [] = None"
| "findInChildren uuid (child # rest) =
     (case findInMeta uuid child of
        Some result \<Rightarrow> Some result
      | None \<Rightarrow> findInChildren uuid rest)"








subsection \<open>Regular expressions, written out\<close>







subsection \<open>\<^verbatim>\<open>replaceResourceName\<close>\<close>













subsection \<open>\<^verbatim>\<open>transformQuiverResourceAndNoteLink\<close>\<close>

















subsection \<open>Notions used to state the properties\<close>
















section \<open>Properties\<close>

subsection \<open>The collision resolver\<close>

lemma newDistinctNoteName_shape:
  "(case newDistinctNoteName noteName used i of
      Inr r \<Rightarrow> \<exists>n. i \<le> n \<and> n \<le> 100 \<and> r = noteName @ '' '' @ numberToString n
                  \<and> r \<notin> set used
                  \<and> (\<forall>m. i \<le> m \<and> m < n \<longrightarrow> noteName @ '' '' @ numberToString m \<in> set used)
    | Inl e \<Rightarrow> e = RenameFailed noteName
                  \<and> (\<forall>n. i \<le> n \<and> n \<le> 100 \<longrightarrow> noteName @ '' '' @ numberToString n \<in> set used))"
proof (induction noteName used i rule: newDistinctNoteName.induct)
  case (1 noteName currentNames index)
  show ?case
  proof (cases "index > MAX_RENAME_COUNT")
    case True
    then show ?thesis
      by (auto simp: newDistinctNoteName.simps [of noteName currentNames index]
          MAX_RENAME_COUNT_def)
  next
    case le: False
    show ?thesis
    proof (cases "noteName @ '' '' @ numberToString index \<in> set currentNames")
      case False
      with le show ?thesis
        by (auto simp: newDistinctNoteName.simps [of noteName currentNames index]
            MAX_RENAME_COUNT_def intro!: exI [of _ index])
    next
      case True
      have step: "newDistinctNoteName noteName currentNames index
                  = newDistinctNoteName noteName currentNames (index + 1)"
        using le True by (simp add: newDistinctNoteName.simps [of noteName currentNames index])
      have IH: "(case newDistinctNoteName noteName currentNames (index + 1) of
          Inr r \<Rightarrow> \<exists>n. index + 1 \<le> n \<and> n \<le> 100 \<and> r = noteName @ '' '' @ numberToString n
                  \<and> r \<notin> set currentNames
                  \<and> (\<forall>m. index + 1 \<le> m \<and> m < n
                        \<longrightarrow> noteName @ '' '' @ numberToString m \<in> set currentNames)
        | Inl e \<Rightarrow> e = RenameFailed noteName
                  \<and> (\<forall>n. index + 1 \<le> n \<and> n \<le> 100
                        \<longrightarrow> noteName @ '' '' @ numberToString n \<in> set currentNames))"
        using "1.IH" [OF le refl True] .
      have cover: "\<And>m. index \<le> m \<Longrightarrow> m = index \<or> index + 1 \<le> m"
        by auto
      show ?thesis
      proof (cases "newDistinctNoteName noteName currentNames (index + 1)")
        case (Inl e)
        with IH have e: "e = RenameFailed noteName"
          and all: "\<forall>n. index + 1 \<le> n \<and> n \<le> 100
                      \<longrightarrow> noteName @ '' '' @ numberToString n \<in> set currentNames"
          by simp_all
        have "\<forall>n. index \<le> n \<and> n \<le> 100
                \<longrightarrow> noteName @ '' '' @ numberToString n \<in> set currentNames"
          using all True cover by blast
        with e Inl step show ?thesis by simp
      next
        case (Inr r)
        with IH obtain n where n: "index + 1 \<le> n" "n \<le> 100"
          "r = noteName @ '' '' @ numberToString n" "r \<notin> set currentNames"
          "\<forall>m. index + 1 \<le> m \<and> m < n
             \<longrightarrow> noteName @ '' '' @ numberToString m \<in> set currentNames"
          by auto
        have "\<forall>m. index \<le> m \<and> m < n
                \<longrightarrow> noteName @ '' '' @ numberToString m \<in> set currentNames"
          using n(5) True cover by blast
        with n have "\<exists>n. index \<le> n \<and> n \<le> 100 \<and> r = noteName @ '' '' @ numberToString n
                  \<and> r \<notin> set currentNames
                  \<and> (\<forall>m. index \<le> m \<and> m < n
                        \<longrightarrow> noteName @ '' '' @ numberToString m \<in> set currentNames)"
          by (intro exI [of _ n]) simp
        with Inr step show ?thesis by simp
      qed
    qed
  qed
qed

text \<open>
  Claim C5. Whenever \<^verbatim>\<open>newDistinctNoteName\<close> returns a name rather than throwing, the
  name is not an element of the list of used names; and the result is determined by
  the three arguments alone (the function reads and writes no state), so any two
  results for the same arguments are equal.
\<close>

theorem C5_newDistinctNoteName_fresh:
  assumes "newDistinctNoteName noteName used startSuffix = Inr r"
  shows "r \<notin> set used
         \<and> (\<forall>r'. newDistinctNoteName noteName used startSuffix = Inr r' \<longrightarrow> r' = r)"
  using assms newDistinctNoteName_shape [where noteName = noteName and used = used
      and i = startSuffix]
  by auto

theorem C5_newDistinctNoteName_fresh_witness:
  "newDistinctNoteName ''Note'' [''Note'', ''Note 2''] 2 = Inr ''Note 3''
   \<and> ''Note 3'' \<notin> set [''Note'', ''Note 2'']"
proof -
  have h: "newDistinctNoteName ''Note'' [''Note'', ''Note 2''] 2 = Inr ''Note 3''"
    by code_simp
  show ?thesis using h C5_newDistinctNoteName_fresh [OF h] by simp
qed

text \<open>
  Claim C6. The resolver appends a space and the decimal suffix, starting at the given
  suffix and adding 1 on each retry, and gives up when the suffix exceeds the fixed
  constant 100: either it returns \<open>noteName n\<close> for the least \<open>n\<close> from the starting
  suffix up to 100 whose name is unused, or every such name is used and it throws the
  rename error.
\<close>

theorem C6_newDistinctNoteName_bound:
  "(case newDistinctNoteName noteName used startSuffix of
      Inr r \<Rightarrow> \<exists>n. startSuffix \<le> n \<and> n \<le> 100 \<and> r = noteName @ '' '' @ numberToString n
                  \<and> r \<notin> set used
                  \<and> (\<forall>m. startSuffix \<le> m \<and> m < n
                        \<longrightarrow> noteName @ '' '' @ numberToString m \<in> set used)
    | Inl e \<Rightarrow> e = RenameFailed noteName
                  \<and> (\<forall>n. startSuffix \<le> n \<and> n \<le> 100
                        \<longrightarrow> noteName @ '' '' @ numberToString n \<in> set used))
   \<and> MAX_RENAME_COUNT = 100"
  using newDistinctNoteName_shape [where noteName = noteName and used = used and i = startSuffix]
  by (simp add: MAX_RENAME_COUNT_def)

theorem C6_newDistinctNoteName_bound_witness:
  "(\<exists>n. 2 \<le> n \<and> n \<le> 100
        \<and> newDistinctNoteName ''Note'' [''Note'', ''Note 2''] 2
            = Inr (''Note'' @ '' '' @ numberToString n)
        \<and> ''Note'' @ '' '' @ numberToString n \<notin> set [''Note'', ''Note 2'']
        \<and> ''Note'' @ '' '' @ numberToString 2 \<in> set [''Note'', ''Note 2''])
   \<and> newDistinctNoteName ''Note'' [] 101 = Inl (RenameFailed ''Note'')"
proof -
  have h: "newDistinctNoteName ''Note'' [''Note'', ''Note 2''] 2 = Inr ''Note 3''"
    by code_simp
  have two: "''Note'' @ '' '' @ numberToString 2 \<in> set [''Note'', ''Note 2'']"
    by code_simp
  have g: "newDistinctNoteName ''Note'' [] 101 = Inl (RenameFailed ''Note'')"
    by code_simp
  have "\<exists>n. 2 \<le> n \<and> n \<le> 100 \<and> ''Note 3'' = ''Note'' @ '' '' @ numberToString n
          \<and> ''Note 3'' \<notin> set [''Note'', ''Note 2'']
          \<and> (\<forall>m. 2 \<le> m \<and> m < n
                \<longrightarrow> ''Note'' @ '' '' @ numberToString m \<in> set [''Note'', ''Note 2''])"
    using C6_newDistinctNoteName_bound [where noteName = "''Note''"
        and used = "[''Note'', ''Note 2'']" and startSuffix = 2]
    unfolding h sum.case by (rule conjunct1)
  then obtain n where "2 \<le> n" "n \<le> 100" "''Note 3'' = ''Note'' @ '' '' @ numberToString n"
    "''Note 3'' \<notin> set [''Note'', ''Note 2'']"
    by blast
  then have "2 \<le> n \<and> n \<le> 100
        \<and> newDistinctNoteName ''Note'' [''Note'', ''Note 2''] 2
            = Inr (''Note'' @ '' '' @ numberToString n)
        \<and> ''Note'' @ '' '' @ numberToString n \<notin> set [''Note'', ''Note 2'']
        \<and> ''Note'' @ '' '' @ numberToString 2 \<in> set [''Note'', ''Note 2'']"
    using h two by metis
  then show ?thesis using g by blast
qed

subsection \<open>The hierarchy walk\<close>







subsection \<open>Declared notebooks that are missing on disk\<close>







subsection \<open>Planning the notes of one notebook\<close>







subsection \<open>Planning a library\<close>













subsection \<open>Decimal suffixes\<close>








subsection \<open>The names of one notebook\<close>




subsection \<open>The file name of a planned path\<close>

















subsection \<open>Which error planning throws\<close>









subsection \<open>The resource-name normalizer\<close>


















subsection \<open>Content mode of the normalizer\<close>








subsection \<open>Note links\<close>













subsection \<open>References in parentheses\<close>






subsection \<open>A notebook that exhausts the resolver\<close>










end
